theory Spec2Isabelle
  imports Main "HOL-Library.Sublist"
begin

section \<open>Navigation extraction, flattening and URL policy of the SharePoint scraper\<close>

text \<open>
  The development embeds \<^verbatim>\<open>scraper/navbar_parser.py\<close>, \<^verbatim>\<open>scraper/navbar_helpers.py\<close>,
  \<^verbatim>\<open>scraper/data_types/navbar.py\<close> and \<^verbatim>\<open>scraper/config.py\<close>.

  Python exceptions are values of \<open>py_error\<close>; a function that can raise returns
  \<open>py_error + 'a\<close> with \<open>Inl\<close> for the exception.  Python strings are \<open>string\<close>,
  \<open>None\<close> is \<open>None\<close> of an option type, Python integers are \<open>int\<close>.
  \<open>str.startswith\<close> is \<open>prefix\<close>, \<open>str.endswith\<close> is \<open>suffix\<close> and the substring
  test \<open>a in b\<close> is \<open>sublist a b\<close>.  Diagnostic \<open>print\<close> calls have no effect on any
  returned value and are left out.
\<close>

subsection \<open>Exceptions\<close>

text \<open>
  \<open>assert c\<close> raises \<open>AssertionError()\<close>, with no argument; \<open>assert c, m\<close> raises
  \<open>AssertionError(m)\<close>.  The only message expression in the source is a call of
  \<open>print\<close>, whose value is \<open>None\<close>.
\<close>

datatype assert_args = NoArgs | ArgNone

datatype py_error =
    AssertionError assert_args
  | KeyError string
  | TypeError
  | JSONDecodeError

subsection \<open>Data types (\<^verbatim>\<open>data_types/navbar.py\<close>)\<close>

text \<open>
  A raw navigation item is a dictionary of the payload.  Each of the keys the code reads
  may be absent (outer \<open>None\<close>); a present \<open>Title\<close>, \<open>Url\<close> or \<open>IsExternal\<close> may be the
  JSON value null (inner \<open>None\<close>).
\<close>

datatype raw_item = RawItem
  (Title: "string option option")
  (Url: "string option option")
  (IsExternal: "bool option option")
  (Children: "raw_item list option")

text \<open>
  \<open>NavbarItem\<close>.  \<open>extract_navbar_item\<close> builds the children as
  \<open>List[Optional[NavbarItem]]\<close>, so a child may be \<open>None\<close>.
\<close>

datatype navbar_item = NavbarItem
  (title: string)
  (url: "string option")
  (is_external: "bool option")
  (base_level: int)
  (children: "navbar_item option list")

text \<open>\<open>NavbarItemProcessed\<close>: a record, with the field names of the source suffixed by \<open>_p\<close>
  where they clash with the selectors of \<open>navbar_item\<close>.\<close>

record navbar_item_processed =
  title_p :: string
  slug :: string
  base_url :: "string option"
  url_p :: "string option"
  is_external_p :: "bool option"
  base_level_p :: int
  scrape :: bool
  should_be_scraped :: bool
  level :: int

subsection \<open>Per-node conversion (\<^verbatim>\<open>navbar_parser.py\<close>)\<close>

text \<open>
  \<open>extract_navbar_item\<close> reads \<open>item["Title"]\<close> first (a missing key raises), returns
  \<open>None\<close> for a null title, then reads \<open>IsExternal\<close> (guarded by a key test), \<open>Url\<close> and
  \<open>Children\<close>, converting the children in order with \<open>base_level + 1\<close>.
  \<open>extract_all\<close> is the list comprehension over the items.
\<close>

fun extract_navbar_item :: "raw_item \<Rightarrow> int \<Rightarrow> py_error + navbar_item option"
  and extract_all :: "raw_item list \<Rightarrow> int \<Rightarrow> py_error + navbar_item option list"
where
  "extract_navbar_item (RawItem None u e cs) lvl = Inl (KeyError ''Title'')"
| "extract_navbar_item (RawItem (Some None) u e cs) lvl = Inr None"
| "extract_navbar_item (RawItem (Some (Some t)) None e cs) lvl = Inl (KeyError ''Url'')"
| "extract_navbar_item (RawItem (Some (Some t)) (Some u) e None) lvl = Inl (KeyError ''Children'')"
| "extract_navbar_item (RawItem (Some (Some t)) (Some u) e (Some cs)) lvl =
     (case extract_all cs (lvl + 1) of
        Inl err \<Rightarrow> Inl err
      | Inr chs \<Rightarrow>
          Inr (Some (NavbarItem t u (case e of None \<Rightarrow> None | Some v \<Rightarrow> v) lvl chs)))"
| "extract_all [] lvl = Inr []"
| "extract_all (r # rs) lvl =
     (case extract_navbar_item r lvl of
        Inl err \<Rightarrow> Inl err
      | Inr x \<Rightarrow>
          (case extract_all rs lvl of
             Inl err \<Rightarrow> Inl err
           | Inr xs \<Rightarrow> Inr (x # xs)))"

text \<open>\<open>get_navbar_items\<close>: convert every top-level item, then drop the \<open>None\<close> results.\<close>

definition get_navbar_items :: "raw_item list \<Rightarrow> int \<Rightarrow> py_error + navbar_item list" where
  "get_navbar_items quick_launch_data lvl =
     (case extract_all quick_launch_data lvl of
        Inl err \<Rightarrow> Inl err
      | Inr items \<Rightarrow> Inr (List.map_filter (\<lambda>x. x) items))"

subsection \<open>Flattening (\<^verbatim>\<open>navbar_helpers.py\<close>)\<close>

text \<open>
  \<open>_transform\<close> returns a list whose first element is the entry of the node and whose
  other elements are the lists returned for the children: a nested list.  pydash's
  \<open>flatten_deep\<close> replaces every list element by its elements, recursively, and leaves
  dictionaries alone.
\<close>

datatype nested = Leaf navbar_item_processed | Nest "nested list"

fun flatten_deep :: "nested list \<Rightarrow> navbar_item_processed list" where
  "flatten_deep [] = []"
| "flatten_deep (Leaf e # xs) = e # flatten_deep xs"
| "flatten_deep (Nest ys # xs) = flatten_deep ys @ flatten_deep xs"

text \<open>The dictionary built for one node.  \<open>slugify\<close> is the third-party function, a
  parameter here.\<close>

definition parent_entry :: "(string \<Rightarrow> string) \<Rightarrow> navbar_item \<Rightarrow> navbar_item_processed" where
  "parent_entry slugify item =
     \<lparr> title_p = title item,
       slug = slugify (title item),
       base_url = url item,
       url_p = url item,
       is_external_p = is_external item,
       base_level_p = base_level item,
       scrape = False,
       should_be_scraped = False,
       level = base_level item + 1 \<rparr>"

text \<open>
  \<open>_transform\<close> subscripts its argument; on a \<open>None\<close> child that raises \<open>TypeError\<close>.
  \<open>transform_all\<close> is the comprehension \<open>[_transform(_) for _ in item["children"]]\<close>.
\<close>

fun transform :: "(string \<Rightarrow> string) \<Rightarrow> navbar_item option \<Rightarrow> py_error + nested list"
  and transform_all :: "(string \<Rightarrow> string) \<Rightarrow> navbar_item option list \<Rightarrow> py_error + nested list list"
where
  "transform slugify None = Inl TypeError"
| "transform slugify (Some (NavbarItem t u e b cs)) =
     (case transform_all slugify cs of
        Inl err \<Rightarrow> Inl err
      | Inr chs \<Rightarrow> Inr (Leaf (parent_entry slugify (NavbarItem t u e b cs)) # map Nest chs))"
| "transform_all slugify [] = Inr []"
| "transform_all slugify (c # cs) =
     (case transform slugify c of
        Inl err \<Rightarrow> Inl err
      | Inr r \<Rightarrow>
          (case transform_all slugify cs of
             Inl err \<Rightarrow> Inl err
           | Inr rs \<Rightarrow> Inr (r # rs)))"

definition flatten_items :: "(string \<Rightarrow> string) \<Rightarrow> navbar_item list \<Rightarrow> py_error + navbar_item_processed list" where
  "flatten_items slugify items =
     (case transform_all slugify (map Some items) of
        Inl err \<Rightarrow> Inl err
      | Inr rs \<Rightarrow> Inr (flatten_deep (map Nest rs)))"

text \<open>\<open>SITE_ROOT\<close> of \<^verbatim>\<open>config.py\<close>.\<close>

definition SITE_ROOT :: string where
  "SITE_ROOT = ''https://uob.sharepoint.com''"

subsection \<open>URL rewriting and scraping policy (\<^verbatim>\<open>navbar_helpers.py\<close>)\<close>

definition block_pages :: "string list" where
  "block_pages = [''AllItems.aspx'', ''admin-centre.aspx'', ''news.aspx'']"

definition block_urls :: "string list" where
  "block_urls = [''http://linkless.header/'']"

text \<open>
  The body of the loop of \<open>update_url\<close> for one item: the assignments of the source in
  their order, each one on the item as the previous ones left it.  Every test reads
  \<open>base_url\<close>, which no assignment writes.
\<close>

definition update_url_item :: "string \<Rightarrow> navbar_item_processed \<Rightarrow> navbar_item_processed" where
  "update_url_item site_slug item =
     (case base_url item of
        None \<Rightarrow> item
      | Some b \<Rightarrow>
          (let item1 = (if prefix ''/sites/'' b
                        then item\<lparr>url_p := Some (SITE_ROOT @ b)\<rparr> else item);
               item2 = (if prefix (''/sites/'' @ site_slug) b \<and> suffix ''.aspx'' b
                        then item1\<lparr>scrape := True, should_be_scraped := True\<rparr> else item1);
               in_block_pages = list_ex (\<lambda>e. suffix e b) block_pages;
               item3 = (if in_block_pages
                        then item2\<lparr>scrape := False, should_be_scraped := False\<rparr> else item2);
               item4 = (if b \<in> set block_urls then item3\<lparr>url_p := None\<rparr> else item3)
           in item4))"

text \<open>
  \<open>update_url\<close> mutates every dictionary of the list in place and returns the list.  The
  writes to an item depend on its \<open>base_url\<close> only, so the result is the list of the
  updated items.
\<close>

definition update_url :: "navbar_item_processed list \<Rightarrow> string \<Rightarrow> navbar_item_processed list" where
  "update_url items site_slug = map (update_url_item site_slug) items"

text \<open>Python truth of \<open>item.get("url")\<close>: neither \<open>None\<close> nor the empty string.\<close>

definition truthy :: "string option \<Rightarrow> bool" where
  "truthy v = (case v of None \<Rightarrow> False | Some s \<Rightarrow> s \<noteq> [])"

definition get_pages_to_scrape :: "navbar_item_processed list \<Rightarrow> navbar_item_processed list" where
  "get_pages_to_scrape items = filter (\<lambda>item. scrape item \<and> truthy (url_p item)) items"

text \<open>\<open>process_navbar_items\<close> of \<^verbatim>\<open>navbar_parser.py\<close>: flatten, then resolve.\<close>

definition process_navbar_items ::
  "(string \<Rightarrow> string) \<Rightarrow> navbar_item list \<Rightarrow> string \<Rightarrow> py_error + navbar_item_processed list" where
  "process_navbar_items slugify items site_slug =
     (case flatten_items slugify items of
        Inl err \<Rightarrow> Inl err
      | Inr processed_items \<Rightarrow> Inr (update_url processed_items site_slug))"

subsection \<open>Locating the payload (\<^verbatim>\<open>get_quick_launch_data\<close>)\<close>

text \<open>The value \<open>json.loads\<close> returns; a dictionary is an association list.\<close>

datatype json =
    JNull
  | JBool bool
  | JNumber string
  | JString string
  | JArray "json list"
  | JObject "(string \<times> json) list"

text \<open>
  The pattern is \<open>"navigationInfo":(.*)(,"appBarParams")\<close>; \<open>CHR 0x22\<close> is the double
  quote.  \<open>re_key\<close> is its literal head and \<open>re_delim\<close> its literal tail.
\<close>

definition re_key :: string where
  "re_key = CHR 0x22 # ''navigationInfo'' @ [CHR 0x22] @ '':''"

definition re_delim :: string where
  "re_delim = '','' @ [CHR 0x22] @ ''appBarParams'' @ [CHR 0x22]"

text \<open>
  \<open>(.*)\<close> is greedy: on the text after the key, up to the end of the line, the group is
  what precedes the last occurrence of the tail.
\<close>

fun group_before_last_delim :: "string \<Rightarrow> string option" where
  "group_before_last_delim [] = None"
| "group_before_last_delim (c # cs) =
     (case group_before_last_delim cs of
        Some g \<Rightarrow> Some (c # g)
      | None \<Rightarrow> if prefix re_delim (c # cs) then Some [] else None)"

text \<open>
  \<open>re.search\<close> tries the start positions from the left; \<open>.\<close> matches every character
  but the newline.  The result is group 1 of the first match.
\<close>

fun re_search :: "string \<Rightarrow> string option" where
  "re_search [] = None"
| "re_search (c # cs) =
     (if prefix re_key (c # cs)
      then (case group_before_last_delim
                   (takeWhile (\<lambda>x. x \<noteq> CHR 0x0A) (drop (length re_key) (c # cs))) of
              Some g \<Rightarrow> Some g
            | None \<Rightarrow> re_search cs)
      else re_search cs)"

text \<open>
  \<open>get_quick_launch_data\<close>.  The document is given by \<open>script_tags\<close>, the texts
  \<open>str(e)\<close> of its script elements in document order; \<open>json_loads\<close> is the library's
  parser.  The assertions are those of the source, in order; the third one,
  \<open>match_groups[0] is not None\<close>, cannot fail since group 1 takes part in every match.
\<close>

definition get_quick_launch_data ::
  "(string \<Rightarrow> py_error + json) \<Rightarrow> string list \<Rightarrow> py_error + json" where
  "get_quick_launch_data json_loads script_tags =
     (case filter (sublist ''navigationInfo'') script_tags of
        [] \<Rightarrow> Inl (AssertionError ArgNone)
      | navigation_info # _ \<Rightarrow>
          (case re_search navigation_info of
             None \<Rightarrow> Inl (AssertionError NoArgs)
           | Some g \<Rightarrow>
               (case json_loads g of
                  Inl err \<Rightarrow> Inl err
                | Inr (JObject d) \<Rightarrow>
                    (case map_of d ''quickLaunch'' of
                       None \<Rightarrow> Inl (AssertionError NoArgs)
                     | Some quick_launch_data \<Rightarrow> Inr quick_launch_data)
                | Inr _ \<Rightarrow> Inl (AssertionError NoArgs))))"

subsection \<open>The specification's view of the tree\<close>

text \<open>
  A RawNavNode of the specification: title, url, is_external, depth and an ordered
  sequence of RawNavNode children.  \<open>embed\<close> is the \<open>NavbarItem\<close> it stands for.
\<close>

datatype nav_tree = Node
  (n_title: string)
  (n_url: "string option")
  (n_is_external: "bool option")
  (n_depth: int)
  (n_children: "nav_tree list")

fun embed :: "nav_tree \<Rightarrow> navbar_item" where
  "embed (Node t u e d kids) = NavbarItem t u e d (map (\<lambda>k. Some (embed k)) kids)"

text \<open>The FlatNavEntry of one node: url equal to base_url, not eligible, heading level
  one more than the depth.\<close>

definition node_entry :: "(string \<Rightarrow> string) \<Rightarrow> nav_tree \<Rightarrow> navbar_item_processed" where
  "node_entry slugify n =
     \<lparr> title_p = n_title n,
       slug = slugify (n_title n),
       base_url = n_url n,
       url_p = n_url n,
       is_external_p = n_is_external n,
       base_level_p = n_depth n,
       scrape = False,
       should_be_scraped = False,
       level = n_depth n + 1 \<rparr>"

text \<open>Pre-order: the entry of the node, then the pre-order of each child in turn.\<close>

fun preorder :: "(string \<Rightarrow> string) \<Rightarrow> nav_tree \<Rightarrow> navbar_item_processed list" where
  "preorder slugify (Node t u e d kids) =
     node_entry slugify (Node t u e d kids) # concat (map (preorder slugify) kids)"

definition preorder_forest :: "(string \<Rightarrow> string) \<Rightarrow> nav_tree list \<Rightarrow> navbar_item_processed list" where
  "preorder_forest slugify ts = concat (map (preorder slugify) ts)"

text \<open>
  The nesting depth of every node of a \<open>NavbarItem\<close> forest, in pre-order, from the
  position of the node alone: the roots are at depth \<open>d\<close>, a child one deeper than its
  parent.  The stored \<open>base_level\<close> is not read.
\<close>

fun node_depths :: "int \<Rightarrow> navbar_item \<Rightarrow> int list"
  and child_depths :: "int \<Rightarrow> navbar_item option list \<Rightarrow> int list"
where
  "node_depths d (NavbarItem t u e b cs) = d # child_depths (d + 1) cs"
| "child_depths d [] = []"
| "child_depths d (None # cs) = child_depths d cs"
| "child_depths d (Some c # cs) = node_depths d c @ child_depths d cs"

text \<open>
  Every node of a \<open>NavbarItem\<close> forest stores its nesting depth: \<open>base_level\<close> is \<open>d\<close>
  at the roots and one more than the parent's at a child.
\<close>

fun levels_ok :: "int \<Rightarrow> navbar_item \<Rightarrow> bool"
  and levels_ok_all :: "int \<Rightarrow> navbar_item option list \<Rightarrow> bool"
where
  "levels_ok d (NavbarItem t u e b cs) = (b = d \<and> levels_ok_all (d + 1) cs)"
| "levels_ok_all d [] = True"
| "levels_ok_all d (None # cs) = levels_ok_all d cs"
| "levels_ok_all d (Some c # cs) = (levels_ok d c \<and> levels_ok_all d cs)"

subsection \<open>A worked navigation payload\<close>

text \<open>
  A payload for the site \<open>acme\<close>: a home page with a content page and a news page below
  it, a top-level item with a null title (and a child), and a link-less heading with a
  child that has no url.  \<open>scenario_items\<close> is what \<open>get_navbar_items\<close> makes of it and
  \<open>scenario_flat\<close> what \<open>flatten_items\<close> makes of that, with the identity for \<open>slugify\<close>.
\<close>

definition scenario_raw :: "raw_item list" where
  "scenario_raw =
     [RawItem (Some (Some ''Home'')) (Some (Some ''/sites/acme/'')) (Some (Some False))
        (Some [RawItem (Some (Some ''About'')) (Some (Some ''/sites/acme/about.aspx''))
                 (Some (Some False)) (Some []),
               RawItem (Some (Some ''News'')) (Some (Some ''/sites/acme/news.aspx''))
                 (Some (Some False)) (Some [])]),
      RawItem (Some None) (Some (Some ''/sites/acme/hidden.aspx'')) None
        (Some [RawItem (Some (Some ''Lost'')) (Some (Some ''/sites/acme/lost.aspx'')) None
                 (Some [])]),
      RawItem (Some (Some ''Links'')) (Some (Some ''http://linkless.header/'')) None
        (Some [RawItem (Some (Some ''No link'')) (Some None) None (Some [])])]"

definition scenario_items :: "navbar_item list" where
  "scenario_items =
     [NavbarItem ''Home'' (Some ''/sites/acme/'') (Some False) 0
        [Some (NavbarItem ''About'' (Some ''/sites/acme/about.aspx'') (Some False) 1 []),
         Some (NavbarItem ''News'' (Some ''/sites/acme/news.aspx'') (Some False) 1 [])],
      NavbarItem ''Links'' (Some ''http://linkless.header/'') None 0
        [Some (NavbarItem ''No link'' None None 1 [])]]"

definition scenario_flat :: "navbar_item_processed list" where
  "scenario_flat =
     [parent_entry (\<lambda>s. s) (NavbarItem ''Home'' (Some ''/sites/acme/'') (Some False) 0 []),
      parent_entry (\<lambda>s. s)
        (NavbarItem ''About'' (Some ''/sites/acme/about.aspx'') (Some False) 1 []),
      parent_entry (\<lambda>s. s)
        (NavbarItem ''News'' (Some ''/sites/acme/news.aspx'') (Some False) 1 []),
      parent_entry (\<lambda>s. s) (NavbarItem ''Links'' (Some ''http://linkless.header/'') None 0 []),
      parent_entry (\<lambda>s. s) (NavbarItem ''No link'' None None 1 [])]"

text \<open>
  A flat list for the selector, as \<open>update_url\<close> receives it: an eligible entry whose
  url has been nulled, a content page of the site \<open>acme\<close>, an eligible entry whose url
  is the empty string, and the home page.
\<close>

definition selector_example :: "navbar_item_processed list" where
  "selector_example =
     [\<lparr> title_p = ''Nulled'', slug = ''nulled'', base_url = None, url_p = None,
        is_external_p = Some False, base_level_p = 0,
        scrape = True, should_be_scraped = True, level = 1 \<rparr>,
      \<lparr> title_p = ''About'', slug = ''about'', base_url = Some ''/sites/acme/about.aspx'',
        url_p = Some ''/sites/acme/about.aspx'',
        is_external_p = Some False, base_level_p = 0,
        scrape = False, should_be_scraped = False, level = 1 \<rparr>,
      \<lparr> title_p = ''Emptied'', slug = ''emptied'', base_url = None, url_p = Some [],
        is_external_p = Some False, base_level_p = 0,
        scrape = True, should_be_scraped = True, level = 1 \<rparr>,
      \<lparr> title_p = ''Home'', slug = ''home'', base_url = Some ''/sites/acme/'',
        url_p = Some ''/sites/acme/'',
        is_external_p = Some False, base_level_p = 0,
        scrape = False, should_be_scraped = False, level = 1 \<rparr>]"

text \<open>A payload whose titleless item is a child: the \<open>Home\<close> item with one child whose
  title is null.\<close>

definition nested_null_raw :: "raw_item list" where
  "nested_null_raw =
     [RawItem (Some (Some ''Home'')) (Some (Some ''/sites/acme/'')) (Some (Some False))
        (Some [RawItem (Some None) (Some (Some ''/sites/acme/about.aspx''))
                 (Some (Some False)) (Some [])])]"

text \<open>
  Three script elements: one that names the marker without the pattern's key, one whose
  payload is the empty object, and one whose payload is an object with an empty
  \<open>quickLaunch\<close> list.
\<close>

definition tag_no_pattern :: string where
  "tag_no_pattern = ''<script>navigationInfo</script>''"

definition tag_empty_object :: string where
  "tag_empty_object = ''<script>'' @ re_key @ ''{}'' @ re_delim @ ''</script>''"

definition quick_launch_text :: string where
  "quick_launch_text = ''{'' @ [CHR 0x22] @ ''quickLaunch'' @ [CHR 0x22] @ '':[]}''"

definition tag_quick_launch :: string where
  "tag_quick_launch = ''<script>'' @ re_key @ quick_launch_text @ re_delim @ ''</script>''"

text \<open>A stand-in for \<open>json.loads\<close> that is right on the two payload texts above and
  rejects every other text.\<close>

definition loads_example :: "string \<Rightarrow> py_error + json" where
  "loads_example s =
     (if s = ''{}'' then Inr (JObject [])
      else if s = quick_launch_text then Inr (JObject [(''quickLaunch'', JArray [])])
      else Inl JSONDecodeError)"

section \<open>Flattening is the pre-order traversal\<close>

lemma flatten_deep_append: "flatten_deep (xs @ ys) = flatten_deep xs @ flatten_deep ys"
  by (induction xs rule: flatten_deep.induct) simp_all

lemma transform_all_embed:
  assumes "\<And>t. t \<in> set ts \<Longrightarrow>
             \<exists>ns. transform sl (Some (embed t)) = Inr ns \<and> flatten_deep ns = preorder sl t"
  shows "\<exists>rs. transform_all sl (map (\<lambda>k. Some (embed k)) ts) = Inr rs
            \<and> flatten_deep (map Nest rs) = concat (map (preorder sl) ts)"
  using assms
proof (induction ts)
  case Nil
  then show ?case by simp
next
  case (Cons t ts)
  from Cons.prems obtain ns where
    ns: "transform sl (Some (embed t)) = Inr ns" "flatten_deep ns = preorder sl t"
    by auto
  from Cons obtain rs where
    rs: "transform_all sl (map (\<lambda>k. Some (embed k)) ts) = Inr rs"
        "flatten_deep (map Nest rs) = concat (map (preorder sl) ts)"
    by auto
  show ?case using ns rs by simp
qed

lemma transform_embed:
  "\<exists>ns. transform sl (Some (embed t)) = Inr ns \<and> flatten_deep ns = preorder sl t"
proof (induction t)
  case (Node t u e d kids)
  then obtain rs where
    rs: "transform_all sl (map (\<lambda>k. Some (embed k)) kids) = Inr rs"
        "flatten_deep (map Nest rs) = concat (map (preorder sl) kids)"
    using transform_all_embed[of kids sl] by blast
  show ?case using rs by (simp add: parent_entry_def node_entry_def)
qed

lemma flatten_items_embed:
  "flatten_items sl (map embed ts) = Inr (preorder_forest sl ts)"
proof -
  obtain rs where
    rs: "transform_all sl (map (\<lambda>k. Some (embed k)) ts) = Inr rs"
        "flatten_deep (map Nest rs) = concat (map (preorder sl) ts)"
    using transform_all_embed[of ts sl] transform_embed by blast
  then show ?thesis by (simp add: flatten_items_def preorder_forest_def comp_def)
qed

text \<open>
  Claim C1.  For every list of RawNavNode trees, \<open>flatten_items\<close> returns the pre-order
  traversal of the forest: it does not raise, the empty forest gives the empty list, and
  the list of a forest that starts with a node is that node's single entry, immediately
  followed by the entries of the node's own children (its subtree), followed by the
  entries of the siblings that come after it, in their order.
\<close>

theorem flatten_items_is_preorder:
  "flatten_items slugify (map embed ts) = Inr (preorder_forest slugify ts)
   \<and> preorder_forest slugify [] = []
   \<and> preorder_forest slugify (Node t u e d kids # rest) =
       node_entry slugify (Node t u e d kids)
         # preorder_forest slugify kids @ preorder_forest slugify rest"
  by (simp add: flatten_items_embed preorder_forest_def)

section \<open>What \<open>update_url\<close> leaves alone\<close>

lemma update_url_length: "length (update_url xs s) = length xs"
  by (simp add: update_url_def)

lemma update_url_nth: "i < length xs \<Longrightarrow> update_url xs s ! i = update_url_item s (xs ! i)"
  by (simp add: update_url_def)

lemma update_url_item_fields:
  "title_p (update_url_item s e) = title_p e"
  "slug (update_url_item s e) = slug e"
  "base_url (update_url_item s e) = base_url e"
  "is_external_p (update_url_item s e) = is_external_p e"
  "base_level_p (update_url_item s e) = base_level_p e"
  "level (update_url_item s e) = level e"
  by (simp_all add: update_url_item_def Let_def split: option.splits)

text \<open>
  Claim C10.  \<open>update_url\<close> keeps the length and the order of the list and, entry by
  entry, the fields title, slug, base_url, is_external, base_level and level; input and
  output agree once url, scrape and should_be_scraped are blanked, so no other field
  differs.
\<close>

theorem update_url_frame:
  "length (update_url xs site_slug) = length xs
   \<and> map title_p (update_url xs site_slug) = map title_p xs
   \<and> map slug (update_url xs site_slug) = map slug xs
   \<and> map base_url (update_url xs site_slug) = map base_url xs
   \<and> map is_external_p (update_url xs site_slug) = map is_external_p xs
   \<and> map base_level_p (update_url xs site_slug) = map base_level_p xs
   \<and> map level (update_url xs site_slug) = map level xs
   \<and> map (\<lambda>e. e\<lparr>url_p := None, scrape := False, should_be_scraped := False\<rparr>)
          (update_url xs site_slug)
       = map (\<lambda>e. e\<lparr>url_p := None, scrape := False, should_be_scraped := False\<rparr>) xs"
  by (simp add: update_url_def update_url_item_fields comp_def)

section \<open>What \<open>flatten_items\<close> initialises\<close>

lemma transform_all_pred:
  assumes P: "\<And>s item. P (parent_entry s item)"
  shows "transform sl c = Inr ns \<Longrightarrow> \<forall>e\<in>set (flatten_deep ns). P e"
    and "transform_all sl cs = Inr rs \<Longrightarrow> \<forall>e\<in>set (flatten_deep (map Nest rs)). P e"
proof (induction sl c and sl cs arbitrary: ns and rs rule: transform_transform_all.induct)
  case (1 slugify)
  then show ?case by simp
next
  case (2 slugify t u e b cs)
  then show ?case using P by (auto split: sum.splits)
next
  case (3 slugify)
  then show ?case by simp
next
  case (4 slugify c cs)
  then show ?case by (auto split: sum.splits)
qed

lemma flatten_items_pred:
  assumes "\<And>s item. P (parent_entry s item)" and "flatten_items sl items = Inr fl"
  shows "\<forall>e\<in>set fl. P e"
  using assms transform_all_pred(2)[of P sl "map Some items"]
  by (auto simp: flatten_items_def split: sum.splits)

lemma flatten_items_initial:
  assumes "flatten_items sl items = Inr fl" and "e \<in> set fl"
  shows "url_p e = base_url e \<and> \<not> scrape e \<and> \<not> should_be_scraped e
       \<and> level e = base_level_p e + 1"
  using flatten_items_pred[of "\<lambda>e. url_p e = base_url e \<and> \<not> scrape e
       \<and> \<not> should_be_scraped e \<and> level e = base_level_p e + 1" sl items fl] assms
  by (simp add: parent_entry_def)

section \<open>The worked payload, step by step\<close>

lemma scenario_extract: "get_navbar_items scenario_raw 0 = Inr scenario_items"
  by (simp add: get_navbar_items_def scenario_raw_def scenario_items_def List.map_filter_simps)

lemma scenario_flatten: "flatten_items (\<lambda>s. s) scenario_items = Inr scenario_flat"
  by (simp add: flatten_items_def scenario_items_def scenario_flat_def parent_entry_def)

lemma scenario_flat_nth:
  "base_url (scenario_flat ! 1) = Some ''/sites/acme/about.aspx''"
  "base_url (scenario_flat ! 2) = Some ''/sites/acme/news.aspx''"
  "base_url (scenario_flat ! 3) = Some ''http://linkless.header/''"
  "base_url (scenario_flat ! 4) = None"
  "length scenario_flat = 5"
  by (simp_all add: scenario_flat_def parent_entry_def)

lemma scenario_scrape:
  "map scrape (update_url scenario_flat ''acme'') = [False, True, False, False, False]"
  by (simp add: update_url_def update_url_item_def scenario_flat_def
      parent_entry_def Let_def block_pages_def block_urls_def suffix_to_prefix)

lemma scenario_pages:
  "map title_p (get_pages_to_scrape (update_url scenario_flat ''acme'')) = [''About'']"
  by (simp add: get_pages_to_scrape_def update_url_def update_url_item_def scenario_flat_def
      parent_entry_def Let_def block_pages_def block_urls_def truthy_def SITE_ROOT_def
      suffix_to_prefix)

section \<open>The rules of \<open>update_url\<close>\<close>

lemma excluded_item:
  assumes "base_url e = Some b"
    and "suffix ''AllItems.aspx'' b \<or> suffix ''admin-centre.aspx'' b \<or> suffix ''news.aspx'' b"
  shows "\<not> scrape (update_url_item s e) \<and> \<not> should_be_scraped (update_url_item s e)"
  using assms by (auto simp: update_url_item_def Let_def block_pages_def)

text \<open>
  Claim C2.  An entry whose \<open>base_url\<close> ends with \<open>AllItems.aspx\<close>, \<open>admin-centre.aspx\<close>
  or \<open>news.aspx\<close> has \<open>scrape\<close> (and \<open>should_be_scraped\<close>) false after \<open>update_url\<close>,
  whatever else \<open>base_url\<close> matches and whatever the flags were: nothing is assumed
  about the site prefix or the \<open>.aspx\<close> ending, so the exclusion wins over the inclusion.
\<close>

theorem exclusion_overrides_inclusion:
  assumes "i < length xs" and "base_url (xs ! i) = Some b"
    and "suffix ''AllItems.aspx'' b \<or> suffix ''admin-centre.aspx'' b \<or> suffix ''news.aspx'' b"
  shows "scrape (update_url xs site_slug ! i) = False
       \<and> should_be_scraped (update_url xs site_slug ! i) = False"
  using assms excluded_item[of "xs ! i" b site_slug] by (simp add: update_url_nth)

text \<open>The news page of the worked payload matches the inclusion rule of the site
  \<open>acme\<close> and the exclusion list, and is not scraped.\<close>

theorem exclusion_overrides_inclusion_witness:
  "base_url (scenario_flat ! 2) = Some ''/sites/acme/news.aspx''
   \<and> prefix (''/sites/'' @ ''acme'') ''/sites/acme/news.aspx''
   \<and> suffix ''.aspx'' ''/sites/acme/news.aspx''
   \<and> suffix ''news.aspx'' ''/sites/acme/news.aspx''
   \<and> scrape (update_url scenario_flat ''acme'' ! 2) = False
   \<and> should_be_scraped (update_url scenario_flat ''acme'' ! 2) = False"
  using exclusion_overrides_inclusion[of 2 scenario_flat "''/sites/acme/news.aspx''" "''acme''"]
    scenario_flat_nth
  by (simp add: suffix_to_prefix)

text \<open>
  Claim C5.  An entry whose \<open>base_url\<close> is the link-less sentinel
  \<open>http://linkless.header/\<close> has a null \<open>url\<close> after \<open>update_url\<close>, whatever its \<open>url\<close>
  was and whatever the site is.
\<close>

theorem linkless_url_is_null:
  assumes "i < length xs" and "base_url (xs ! i) = Some ''http://linkless.header/''"
  shows "url_p (update_url xs site_slug ! i) = None"
  using assms by (simp add: update_url_nth update_url_item_def Let_def block_urls_def)

theorem linkless_url_is_null_witness:
  "base_url (scenario_flat ! 3) = Some ''http://linkless.header/''
   \<and> url_p (scenario_flat ! 3) = Some ''http://linkless.header/''
   \<and> url_p (update_url scenario_flat ''acme'' ! 3) = None"
  using linkless_url_is_null[of 3 scenario_flat "''acme''"] scenario_flat_nth
  by (simp add: scenario_flat_def parent_entry_def)

text \<open>
  Claim C6.  (1) An entry whose \<open>base_url\<close> is not null, starts with \<open>/sites/\<close> and is
  not the link-less sentinel has, after \<open>update_url\<close>, the url
  \<open>https://uob.sharepoint.com\<close> followed by \<open>base_url\<close>.  (2) An entry whose \<open>base_url\<close>
  is null keeps its \<open>url\<close>, \<open>scrape\<close> and \<open>should_be_scraped\<close> through \<open>update_url\<close>.
  (3) In a list that \<open>flatten_items\<close> returned, such an entry has a null \<open>url\<close> and a
  false \<open>scrape\<close> before \<open>update_url\<close>, and so after it.
\<close>

theorem update_url_rewrite_and_null:
  "(i < length xs \<and> base_url (xs ! i) = Some b \<and> prefix ''/sites/'' b
      \<and> b \<noteq> ''http://linkless.header/''
      \<longrightarrow> url_p (update_url xs site_slug ! i) = Some (''https://uob.sharepoint.com'' @ b))
   \<and> (k < length ys \<and> base_url (ys ! k) = None
      \<longrightarrow> url_p (update_url ys site_slug ! k) = url_p (ys ! k)
        \<and> scrape (update_url ys site_slug ! k) = scrape (ys ! k)
        \<and> should_be_scraped (update_url ys site_slug ! k) = should_be_scraped (ys ! k))
   \<and> (flatten_items slugify items = Inr fl \<and> j < length fl \<and> base_url (fl ! j) = None
      \<longrightarrow> url_p (fl ! j) = None \<and> scrape (fl ! j) = False
        \<and> url_p (update_url fl site_slug ! j) = None
        \<and> scrape (update_url fl site_slug ! j) = False
        \<and> should_be_scraped (update_url fl site_slug ! j) = False)"
proof (intro conjI impI)
  assume "i < length xs \<and> base_url (xs ! i) = Some b \<and> prefix ''/sites/'' b
      \<and> b \<noteq> ''http://linkless.header/''"
  then show "url_p (update_url xs site_slug ! i) = Some (''https://uob.sharepoint.com'' @ b)"
    by (simp add: update_url_nth update_url_item_def Let_def block_urls_def SITE_ROOT_def)
next
  assume "k < length ys \<and> base_url (ys ! k) = None"
  then show "url_p (update_url ys site_slug ! k) = url_p (ys ! k)"
    "scrape (update_url ys site_slug ! k) = scrape (ys ! k)"
    "should_be_scraped (update_url ys site_slug ! k) = should_be_scraped (ys ! k)"
    by (simp_all add: update_url_nth update_url_item_def)
next
  assume a: "flatten_items slugify items = Inr fl \<and> j < length fl \<and> base_url (fl ! j) = None"
  then have init: "url_p (fl ! j) = base_url (fl ! j)" "\<not> scrape (fl ! j)"
    "\<not> should_be_scraped (fl ! j)"
    using flatten_items_initial[of slugify items fl "fl ! j"] by auto
  show "url_p (fl ! j) = None" "scrape (fl ! j) = False"
    "url_p (update_url fl site_slug ! j) = None"
    "scrape (update_url fl site_slug ! j) = False"
    "should_be_scraped (update_url fl site_slug ! j) = False"
    using a init by (simp_all add: update_url_nth update_url_item_def)
qed

theorem update_url_rewrite_and_null_witness:
  "base_url (scenario_flat ! 1) = Some ''/sites/acme/about.aspx''
   \<and> prefix ''/sites/'' ''/sites/acme/about.aspx''
   \<and> url_p (update_url scenario_flat ''acme'' ! 1)
       = Some ''https://uob.sharepoint.com/sites/acme/about.aspx''
   \<and> flatten_items (\<lambda>s. s) scenario_items = Inr scenario_flat
   \<and> base_url (scenario_flat ! 4) = None
   \<and> url_p (update_url scenario_flat ''acme'' ! 4) = url_p (scenario_flat ! 4)
   \<and> url_p (update_url scenario_flat ''acme'' ! 4) = None
   \<and> scrape (update_url scenario_flat ''acme'' ! 4) = False"
  using update_url_rewrite_and_null[of 1 scenario_flat "''/sites/acme/about.aspx''" "''acme''"
      4 scenario_flat "\<lambda>s. s" scenario_items scenario_flat 4]
    scenario_flatten scenario_flat_nth
  by simp

section \<open>The two eligibility fields\<close>

lemma update_url_item_flags:
  "scrape e = should_be_scraped e \<Longrightarrow>
   scrape (update_url_item s e) = should_be_scraped (update_url_item s e)"
  by (simp add: update_url_item_def Let_def split: option.splits)

text \<open>
  Claim C9.  \<open>scrape\<close> and \<open>should_be_scraped\<close> are equal in every entry of every stage:
  in the list \<open>flatten_items\<close> returns, and, where they are equal in a list, in what
  \<open>update_url\<close> and \<open>get_pages_to_scrape\<close> return for it; so in the selection made
  from a flattened and resolved list.
\<close>

theorem eligibility_fields_equal:
  "(flatten_items slugify items = Inr fl \<longrightarrow> (\<forall>e\<in>set fl. scrape e = should_be_scraped e))
   \<and> ((\<forall>e\<in>set xs. scrape e = should_be_scraped e)
        \<longrightarrow> (\<forall>e\<in>set (update_url xs site_slug). scrape e = should_be_scraped e))
   \<and> ((\<forall>e\<in>set xs. scrape e = should_be_scraped e)
        \<longrightarrow> (\<forall>e\<in>set (get_pages_to_scrape xs). scrape e = should_be_scraped e))
   \<and> (flatten_items slugify items = Inr fl
        \<longrightarrow> (\<forall>e\<in>set (get_pages_to_scrape (update_url fl site_slug)).
               scrape e = should_be_scraped e))"
proof -
  have 1: "\<forall>e\<in>set fl. scrape e = should_be_scraped e" if "flatten_items slugify items = Inr fl"
    using flatten_items_initial[OF that] by blast
  have 2: "\<forall>e\<in>set (update_url zs site_slug). scrape e = should_be_scraped e"
    if "\<forall>e\<in>set zs. scrape e = should_be_scraped e" for zs
    using that by (auto simp: update_url_def update_url_item_flags)
  have 3: "\<forall>e\<in>set (get_pages_to_scrape zs). scrape e = should_be_scraped e"
    if "\<forall>e\<in>set zs. scrape e = should_be_scraped e" for zs
    using that by (auto simp: get_pages_to_scrape_def)
  from 1 2 3 show ?thesis by blast
qed

theorem eligibility_fields_equal_witness:
  "flatten_items (\<lambda>s. s) scenario_items = Inr scenario_flat
   \<and> list_all (\<lambda>e. scrape e = should_be_scraped e) scenario_flat
   \<and> list_all (\<lambda>e. scrape e = should_be_scraped e) (update_url scenario_flat ''acme'')
   \<and> list_all (\<lambda>e. scrape e = should_be_scraped e)
       (get_pages_to_scrape (update_url scenario_flat ''acme''))
   \<and> map scrape (update_url scenario_flat ''acme'') = [False, True, False, False, False]"
proof -
  from eligibility_fields_equal[of "\<lambda>s. s" scenario_items scenario_flat scenario_flat "''acme''"]
    scenario_flatten
  have "\<forall>e\<in>set scenario_flat. scrape e = should_be_scraped e"
    "\<forall>e\<in>set (update_url scenario_flat ''acme''). scrape e = should_be_scraped e"
    "\<forall>e\<in>set (get_pages_to_scrape (update_url scenario_flat ''acme'')).
       scrape e = should_be_scraped e"
    by blast+
  then show ?thesis using scenario_scrape scenario_flatten by (simp add: list_all_iff)
qed

section \<open>The selection of the pages to scrape\<close>

lemma selector_example_resolved:
  "map scrape (update_url selector_example ''acme'') = [True, True, True, False]"
  "map url_p (update_url selector_example ''acme'')
     = [None, Some ''https://uob.sharepoint.com/sites/acme/about.aspx'', Some [],
        Some ''https://uob.sharepoint.com/sites/acme/'']"
  "map title_p (update_url selector_example ''acme'')
     = [''Nulled'', ''About'', ''Emptied'', ''Home'']"
  by (simp_all add: update_url_def update_url_item_def selector_example_def Let_def
      block_pages_def block_urls_def SITE_ROOT_def suffix_to_prefix)

lemma selector_example_selected:
  "map title_p (get_pages_to_scrape (update_url selector_example ''acme'')) = [''About'']"
  by (simp add: get_pages_to_scrape_def truthy_def update_url_def update_url_item_def
      selector_example_def Let_def block_pages_def block_urls_def SITE_ROOT_def
      suffix_to_prefix)

lemma selector_example_nonnull:
  "map title_p (filter (\<lambda>e. scrape e \<and> url_p e \<noteq> None)
                  (update_url selector_example ''acme''))
     = [''About'', ''Emptied'']"
  by (simp add: update_url_def update_url_item_def selector_example_def Let_def
      block_pages_def block_urls_def SITE_ROOT_def suffix_to_prefix)

text \<open>
  Claim C4 as stated: the selection is exactly the entries with a true \<open>scrape\<close> and a
  non-null \<open>url\<close>.  In the resolved list of \<open>selector_example\<close> the entry \<open>Emptied\<close> has a
  true \<open>scrape\<close> and a url that is not null, the empty string, and the selection leaves
  it out: the selection is \<open>About\<close> alone, the entries that meet the two conditions are
  \<open>About\<close> and \<open>Emptied\<close>.
\<close>

theorem selector_drops_empty_url:
  "map scrape (update_url selector_example ''acme'') = [True, True, True, False]
   \<and> map url_p (update_url selector_example ''acme'')
       = [None, Some ''https://uob.sharepoint.com/sites/acme/about.aspx'', Some [],
          Some ''https://uob.sharepoint.com/sites/acme/'']
   \<and> map title_p (filter (\<lambda>e. scrape e \<and> url_p e \<noteq> None)
                     (update_url selector_example ''acme'')) = [''About'', ''Emptied'']
   \<and> map title_p (get_pages_to_scrape (update_url selector_example ''acme'')) = [''About'']
   \<and> get_pages_to_scrape (update_url selector_example ''acme'')
       \<noteq> filter (\<lambda>e. scrape e \<and> url_p e \<noteq> None) (update_url selector_example ''acme'')"
proof -
  have "get_pages_to_scrape (update_url selector_example ''acme'')
       \<noteq> filter (\<lambda>e. scrape e \<and> url_p e \<noteq> None) (update_url selector_example ''acme'')"
  proof
    assume "get_pages_to_scrape (update_url selector_example ''acme'')
       = filter (\<lambda>e. scrape e \<and> url_p e \<noteq> None) (update_url selector_example ''acme'')"
    then have "map title_p (get_pages_to_scrape (update_url selector_example ''acme''))
       = map title_p (filter (\<lambda>e. scrape e \<and> url_p e \<noteq> None)
                        (update_url selector_example ''acme''))"
      by simp
    then show False
      using selector_example_selected selector_example_nonnull by simp
  qed
  then show ?thesis
    using selector_example_resolved selector_example_selected selector_example_nonnull by simp
qed

text \<open>
  Claim C4, amended.  For every flat list, \<open>get_pages_to_scrape\<close> returns exactly the
  entries whose \<open>scrape\<close> is true and whose \<open>url\<close> is neither null nor the empty string,
  in their order: the result is the \<open>filter\<close> of the list by these conditions, so every
  entry of it satisfies them and none that does is left out.
\<close>

theorem selector_exact:
  "get_pages_to_scrape xs
     = filter (\<lambda>e. scrape e \<and> url_p e \<noteq> None \<and> url_p e \<noteq> Some []) xs"
  unfolding get_pages_to_scrape_def
  by (intro filter_cong) (auto simp: truthy_def split: option.splits)

text \<open>In the resolved list of \<open>selector_example\<close> the eligible entry with a null url and
  the eligible entry with an empty url are dropped, the home page is not eligible, and
  the content page is kept.\<close>

theorem selector_exact_witness:
  "map scrape (update_url selector_example ''acme'') = [True, True, True, False]
   \<and> map url_p (update_url selector_example ''acme'')
       = [None, Some ''https://uob.sharepoint.com/sites/acme/about.aspx'', Some [],
          Some ''https://uob.sharepoint.com/sites/acme/'']
   \<and> get_pages_to_scrape (update_url selector_example ''acme'')
       = filter (\<lambda>e. scrape e \<and> url_p e \<noteq> None \<and> url_p e \<noteq> Some [])
           (update_url selector_example ''acme'')
   \<and> map title_p (get_pages_to_scrape (update_url selector_example ''acme'')) = [''About'']"
  using selector_exact[of "update_url selector_example ''acme''"]
    selector_example_resolved selector_example_selected
  by simp

text \<open>In a list that \<open>flatten_items\<close> returned, an entry that \<open>update_url\<close> marks for
  scraping has the url \<open>SITE_ROOT\<close> followed by its \<open>base_url\<close>.\<close>

lemma scraped_item_url:
  assumes "\<not> scrape e" and "scrape (update_url_item s e)"
  shows "\<exists>b. base_url e = Some b \<and> url_p (update_url_item s e) = Some (SITE_ROOT @ b)"
proof (cases "base_url e")
  case None
  then show ?thesis using assms by (simp add: update_url_item_def)
next
  case (Some b)
  have inc: "prefix (''/sites/'' @ s) b"
    using assms Some by (auto simp: update_url_item_def Let_def split: if_splits)
  then have p: "prefix ''/sites/'' b"
    using append_prefixD by blast
  then have "b \<noteq> ''http://linkless.header/''" by auto
  then show ?thesis using Some p by (simp add: update_url_item_def Let_def block_urls_def)
qed

section \<open>Depth and heading level\<close>

lemma extract_levels_ok:
  "extract_navbar_item r d = Inr (Some item) \<Longrightarrow> levels_ok d item"
  "extract_all rs d = Inr xs \<Longrightarrow> levels_ok_all d xs"
proof (induction r d and rs d arbitrary: item and xs rule: extract_navbar_item_extract_all.induct)
  case (5 t u e cs lvl)
  then show ?case by (auto split: sum.splits)
next
  case (7 r rs lvl)
  from "7.prems" obtain x xs' where x: "extract_navbar_item r lvl = Inr x"
    and xs': "extract_all rs lvl = Inr xs'" and xs: "xs = x # xs'"
    by (auto split: sum.splits)
  have tl: "levels_ok_all lvl xs'"
    using "7.IH"(2)[OF x xs'] .
  show ?case
  proof (cases x)
    case None
    then show ?thesis using tl xs by simp
  next
    case (Some item)
    then show ?thesis using "7.IH"(1)[of item] x tl xs by simp
  qed
qed simp_all

lemma levels_ok_all_map_filter:
  "levels_ok_all d xs \<Longrightarrow> levels_ok_all d (map Some (List.map_filter (\<lambda>x. x) xs))"
proof (induction xs)
  case Nil
  then show ?case by (simp add: List.map_filter_simps)
next
  case (Cons x xs)
  then show ?case by (cases x) (simp_all add: List.map_filter_simps)
qed

lemma transform_depths:
  "transform sl c = Inr ns \<Longrightarrow> (\<And>item. c = Some item \<Longrightarrow> levels_ok d item) \<Longrightarrow>
     map base_level_p (flatten_deep ns) = child_depths d [c]"
  "transform_all sl cs = Inr rs \<Longrightarrow> levels_ok_all d cs \<Longrightarrow>
     map base_level_p (flatten_deep (map Nest rs)) = child_depths d cs"
proof (induction sl c and sl cs arbitrary: ns d and rs d rule: transform_transform_all.induct)
  case (1 slugify)
  then show ?case by simp
next
  case (2 slugify t u e b cs)
  from "2.prems" obtain chs where chs: "transform_all slugify cs = Inr chs"
    and ns: "ns = Leaf (parent_entry slugify (NavbarItem t u e b cs)) # map Nest chs"
    by (auto split: sum.splits)
  from "2.prems" have ok: "b = d" "levels_ok_all (d + 1) cs" by auto
  from "2.IH"[OF chs ok(2)] show ?case using ns ok by (simp add: parent_entry_def)
next
  case (3 slugify)
  then show ?case by simp
next
  case (4 slugify c cs)
  from "4.prems" obtain r rs' where r: "transform slugify c = Inr r"
    and rs': "transform_all slugify cs = Inr rs'" and rs: "rs = r # rs'"
    by (auto split: sum.splits)
  from r obtain item where c: "c = Some item" by (cases c) auto
  with "4.prems" have ok: "levels_ok d item" "levels_ok_all d cs" by auto
  have a: "map base_level_p (flatten_deep r) = child_depths d [c]"
    using "4.IH"(1)[OF r, of d] ok c by simp
  have b: "map base_level_p (flatten_deep (map Nest rs')) = child_depths d cs"
    using "4.IH"(2)[OF r rs' ok(2)] .
  show ?case using a b rs c by simp
qed

lemma pipeline_levels_ok:
  assumes "get_navbar_items raw d = Inr items"
  shows "levels_ok_all d (map Some items)"
proof -
  from assms obtain xs where xs: "extract_all raw d = Inr xs"
    and items: "items = List.map_filter (\<lambda>x. x) xs"
    by (auto simp: get_navbar_items_def split: sum.splits)
  show ?thesis
    using extract_levels_ok(2)[OF xs] items levels_ok_all_map_filter by simp
qed

lemma pipeline_depths:
  assumes "get_navbar_items raw d = Inr items" and "flatten_items sl items = Inr fl"
  shows "map base_level_p fl = child_depths d (map Some items)"
proof -
  from assms(2) obtain rs where rs: "transform_all sl (map Some items) = Inr rs"
    and fl: "fl = flatten_deep (map Nest rs)"
    by (auto simp: flatten_items_def split: sum.splits)
  from transform_depths(2)[OF rs pipeline_levels_ok[OF assms(1)]] fl show ?thesis by simp
qed

text \<open>
  Claim C7.  When \<open>get_navbar_items\<close> (from level 0) and \<open>flatten_items\<close> return, the
  \<open>base_level\<close> fields of the flat entries are, in order, the nesting depths of the
  nodes in pre-order (roots at 0, a child one deeper than its parent), which is also
  what every node stores; \<open>level\<close> is \<open>base_level + 1\<close> in every flat entry;
  \<open>update_url\<close> keeps the \<open>base_level\<close> fields, and \<open>level = base_level + 1\<close> holds in
  every entry of its result and of the selection \<open>get_pages_to_scrape\<close> makes from it.
\<close>

theorem heading_level_law:
  assumes "get_navbar_items raw 0 = Inr items" and "flatten_items slugify items = Inr fl"
  shows "map base_level_p fl = child_depths 0 (map Some items)
       \<and> levels_ok_all 0 (map Some items)
       \<and> (\<forall>e\<in>set fl. level e = base_level_p e + 1)
       \<and> map base_level_p (update_url fl site_slug) = map base_level_p fl
       \<and> (\<forall>e\<in>set (update_url fl site_slug). level e = base_level_p e + 1)
       \<and> (\<forall>e\<in>set (get_pages_to_scrape (update_url fl site_slug)).
             level e = base_level_p e + 1)"
proof -
  have fl: "\<forall>e\<in>set fl. level e = base_level_p e + 1"
    using flatten_items_initial[OF assms(2)] by blast
  have up: "\<forall>e\<in>set (update_url fl site_slug). level e = base_level_p e + 1"
    using fl by (auto simp: update_url_def update_url_item_fields)
  have sel: "\<forall>e\<in>set (get_pages_to_scrape (update_url fl site_slug)).
      level e = base_level_p e + 1"
    using up by (auto simp: get_pages_to_scrape_def)
  have m: "map base_level_p (update_url fl site_slug) = map base_level_p fl"
    by (simp add: update_url_def update_url_item_fields comp_def)
  show ?thesis
    using pipeline_depths[OF assms] pipeline_levels_ok[OF assms(1)] fl up sel m by blast
qed

theorem heading_level_law_witness:
  "get_navbar_items scenario_raw 0 = Inr scenario_items
   \<and> flatten_items (\<lambda>s. s) scenario_items = Inr scenario_flat
   \<and> map base_level_p scenario_flat = child_depths 0 (map Some scenario_items)
   \<and> child_depths 0 (map Some scenario_items) = [0, 1, 1, 0, 1]
   \<and> map level (update_url scenario_flat ''acme'') = [1, 2, 2, 1, 2]
   \<and> list_all (\<lambda>e. level e = base_level_p e + 1) scenario_flat
   \<and> list_all (\<lambda>e. level e = base_level_p e + 1) (update_url scenario_flat ''acme'')
   \<and> list_all (\<lambda>e. level e = base_level_p e + 1)
        (get_pages_to_scrape (update_url scenario_flat ''acme''))"
proof -
  have d: "child_depths 0 (map Some scenario_items) = [0, 1, 1, 0, 1]"
    by (simp add: scenario_items_def)
  have l: "map level (update_url scenario_flat ''acme'') = [1, 2, 2, 1, 2]"
    by (simp add: update_url_def update_url_item_fields scenario_flat_def parent_entry_def)
  from heading_level_law[OF scenario_extract scenario_flatten, of "''acme''"] d l
    scenario_extract scenario_flatten
  show ?thesis by (simp add: list_all_iff)
qed

section \<open>Items without a title\<close>

text \<open>At the top level an item with a null title is dropped with its children, and the
  other items are converted as if it were not there.\<close>

lemma top_level_null_title_skipped:
  "get_navbar_items (RawItem (Some None) u e cs # rs) d = get_navbar_items rs d"
  by (simp add: get_navbar_items_def List.map_filter_simps split: sum.splits)

text \<open>An item without the key \<open>Title\<close> stops the conversion.\<close>

lemma missing_title_key_raises:
  "get_navbar_items (RawItem None u e cs # rs) d = Inl (KeyError ''Title'')"
  by (simp add: get_navbar_items_def)

text \<open>Below the top level the \<open>None\<close> of a null title stays in the list of children, and
  \<open>_transform\<close> raises on it.\<close>

lemma nested_null_title_general:
  assumes "extract_navbar_item
             (RawItem (Some (Some t)) (Some u) e (Some (RawItem (Some None) u' e' cs' # rest))) d
           = Inr (Some item)"
  shows "transform sl (Some item) = Inl TypeError"
  using assms by (auto split: sum.splits)

text \<open>
  Claim C3.  A node with a null title should be skipped without an error wherever it
  occurs.  On the payload \<open>nested_null_raw\<close>, whose titleless item is a child of \<open>Home\<close>,
  \<open>get_navbar_items\<close> returns \<open>Home\<close> with the child list \<open>[None]\<close>, and \<open>flatten_items\<close>
  (so \<open>process_navbar_items\<close>) raises \<open>TypeError\<close> on it, for every \<open>slugify\<close> and site.
\<close>

theorem nested_null_title_raises:
  "get_navbar_items nested_null_raw 0
      = Inr [NavbarItem ''Home'' (Some ''/sites/acme/'') (Some False) 0 [None]]
   \<and> flatten_items slugify [NavbarItem ''Home'' (Some ''/sites/acme/'') (Some False) 0 [None]]
      = Inl TypeError
   \<and> process_navbar_items slugify
        [NavbarItem ''Home'' (Some ''/sites/acme/'') (Some False) 0 [None]] site_slug
      = Inl TypeError"
  by (simp add: get_navbar_items_def nested_null_raw_def List.map_filter_simps
      flatten_items_def process_navbar_items_def)

section \<open>Failures of \<open>get_quick_launch_data\<close>\<close>

lemma example_markers:
  "sublist ''navigationInfo'' tag_no_pattern"
  "sublist ''navigationInfo'' tag_empty_object"
  "sublist ''navigationInfo'' tag_quick_launch"
  "\<not> sublist ''navigationInfo'' ''<script>var a = 1;</script>''"
  by (simp_all add: sublist_Cons_right re_key_def re_delim_def tag_no_pattern_def
      tag_empty_object_def tag_quick_launch_def quick_launch_text_def)

lemma example_searches:
  "re_search tag_no_pattern = None"
  "re_search tag_empty_object = Some ''{}''"
  "re_search tag_quick_launch = Some quick_launch_text"
  by (simp_all add: re_key_def re_delim_def tag_no_pattern_def
      tag_empty_object_def tag_quick_launch_def quick_launch_text_def)

lemma example_loads:
  "loads_example ''{}'' = Inr (JObject [])"
  "loads_example quick_launch_text = Inr (JObject [(''quickLaunch'', JArray [])])"
  by (simp_all add: loads_example_def quick_launch_text_def)

text \<open>
  Claim C8 as stated: three distinct, distinguishable errors.  A document whose
  marker element does not match the pattern and a document whose payload parses to an
  object without \<open>quickLaunch\<close> fail with the same exception, an \<open>AssertionError\<close> without
  argument; a document without the marker fails with an \<open>AssertionError\<close> too.
\<close>

theorem failures_share_one_error:
  "sublist ''navigationInfo'' tag_no_pattern \<and> re_search tag_no_pattern = None
   \<and> sublist ''navigationInfo'' tag_empty_object \<and> re_search tag_empty_object = Some ''{}''
   \<and> loads_example ''{}'' = Inr (JObject [])
   \<and> get_quick_launch_data loads_example [tag_no_pattern] = Inl (AssertionError NoArgs)
   \<and> get_quick_launch_data loads_example [tag_empty_object] = Inl (AssertionError NoArgs)
   \<and> get_quick_launch_data loads_example [tag_no_pattern]
       = get_quick_launch_data loads_example [tag_empty_object]
   \<and> get_quick_launch_data loads_example [''<script>var a = 1;</script>'']
       = Inl (AssertionError ArgNone)"
  using example_markers example_searches example_loads
  by (simp add: get_quick_launch_data_def)

text \<open>
  Claim C8, amended.  \<open>get_quick_launch_data\<close> fails with an \<open>AssertionError\<close> in each
  of the three cases: with \<open>AssertionError(None)\<close> when no script element contains the
  marker, and with the argument-less \<open>AssertionError\<close> both when the first element that
  contains the marker does not match the pattern and when the parsed object has no
  \<open>quickLaunch\<close> key.  Whenever a value is returned, every check has passed and the value
  is the whole \<open>quickLaunch\<close> value of the parsed object; a failure returns nothing.
\<close>

theorem get_quick_launch_data_failures:
  "(filter (sublist ''navigationInfo'') script_tags = []
      \<longrightarrow> get_quick_launch_data json_loads script_tags = Inl (AssertionError ArgNone))
   \<and> (filter (sublist ''navigationInfo'') script_tags = tag # others \<and> re_search tag = None
      \<longrightarrow> get_quick_launch_data json_loads script_tags = Inl (AssertionError NoArgs))
   \<and> (filter (sublist ''navigationInfo'') script_tags = tag' # others'
        \<and> re_search tag' = Some g
        \<and> json_loads g = Inr (JObject d) \<and> map_of d ''quickLaunch'' = None
      \<longrightarrow> get_quick_launch_data json_loads script_tags = Inl (AssertionError NoArgs))
   \<and> (get_quick_launch_data json_loads script_tags = Inr q
      \<longrightarrow> (\<exists>t m s ob. filter (sublist ''navigationInfo'') script_tags = t # m
             \<and> re_search t = Some s \<and> json_loads s = Inr (JObject ob)
             \<and> map_of ob ''quickLaunch'' = Some q))"
  by (auto simp: get_quick_launch_data_def
      split: list.splits option.splits sum.splits json.splits)

theorem get_quick_launch_data_failures_witness:
  "filter (sublist ''navigationInfo'') [''<script>var a = 1;</script>''] = []
   \<and> get_quick_launch_data loads_example [''<script>var a = 1;</script>'']
       = Inl (AssertionError ArgNone)
   \<and> filter (sublist ''navigationInfo'') [tag_no_pattern] = [tag_no_pattern]
   \<and> re_search tag_no_pattern = None
   \<and> get_quick_launch_data loads_example [tag_no_pattern] = Inl (AssertionError NoArgs)
   \<and> filter (sublist ''navigationInfo'') [tag_empty_object] = [tag_empty_object]
   \<and> re_search tag_empty_object = Some ''{}''
   \<and> loads_example ''{}'' = Inr (JObject [])
   \<and> map_of ([] :: (string \<times> json) list) ''quickLaunch'' = None
   \<and> get_quick_launch_data loads_example [tag_empty_object] = Inl (AssertionError NoArgs)
   \<and> get_quick_launch_data loads_example [''<script>var a = 1;</script>'', tag_quick_launch]
       = Inr (JArray [])
   \<and> (\<exists>t m s ob.
         filter (sublist ''navigationInfo'') [''<script>var a = 1;</script>'', tag_quick_launch]
           = t # m
         \<and> re_search t = Some s \<and> loads_example s = Inr (JObject ob)
         \<and> map_of ob ''quickLaunch'' = Some (JArray []))"
proof -
  have f: "filter (sublist ''navigationInfo'') [''<script>var a = 1;</script>''] = []"
    "filter (sublist ''navigationInfo'') [tag_no_pattern] = [tag_no_pattern]"
    "filter (sublist ''navigationInfo'') [tag_empty_object] = [tag_empty_object]"
    using example_markers by simp_all
  have ok: "get_quick_launch_data loads_example [''<script>var a = 1;</script>'', tag_quick_launch]
       = Inr (JArray [])"
    using example_markers example_searches example_loads
    by (simp add: get_quick_launch_data_def)
  from get_quick_launch_data_failures
         [of "[''<script>var a = 1;</script>'']" loads_example]
  have a: "get_quick_launch_data loads_example [''<script>var a = 1;</script>'']
       = Inl (AssertionError ArgNone)"
    using f(1) by blast
  from get_quick_launch_data_failures
         [of "[tag_no_pattern]" loads_example tag_no_pattern "[]"]
  have b: "get_quick_launch_data loads_example [tag_no_pattern] = Inl (AssertionError NoArgs)"
    using f(2) example_searches(1) by blast
  from get_quick_launch_data_failures
         [of "[tag_empty_object]" loads_example _ _ tag_empty_object "[]" "''{}''" "[]"]
  have c: "get_quick_launch_data loads_example [tag_empty_object] = Inl (AssertionError NoArgs)"
    using f(3) example_searches(2) example_loads(1) by simp
  from get_quick_launch_data_failures
         [of "[''<script>var a = 1;</script>'', tag_quick_launch]" loads_example
             _ _ _ _ _ _ "JArray []"] ok
  have e: "\<exists>t m s ob.
         filter (sublist ''navigationInfo'') [''<script>var a = 1;</script>'', tag_quick_launch]
           = t # m
         \<and> re_search t = Some s \<and> loads_example s = Inr (JObject ob)
         \<and> map_of ob ''quickLaunch'' = Some (JArray [])"
    by blast
  show ?thesis using f ok a b c e example_searches example_loads by simp
qed

end
